theory Spec2Isabelle
  imports Main
begin

section \<open>Data model\<close>

text \<open>
  A frame of the timeline, as the constructor calls \<^verbatim>\<open>FrameData(source_path=..., display_name=...,
  duration_ms=..., is_custom_duration=..., is_checked=...)\<close> of \<^verbatim>\<open>app.py\<close> use it.
\<close>

record FrameData =
  source_path :: string
  display_name :: string
  duration_ms :: int
  is_custom_duration :: bool
  is_checked :: bool

text \<open>
  The mutable attributes of \<^verbatim>\<open>MainWindow\<close> that the editing, playback and file operations
  read and write. The timer \<^verbatim>\<open>play_timer\<close> is kept as its pending interval: \<open>None\<close> after
  \<^verbatim>\<open>stop()\<close>, \<open>Some ms\<close> after \<^verbatim>\<open>start(ms)\<close>. Widgets, icons and the preference object are
  presentation and are not part of the state; \<^verbatim>\<open>rebuild_tree\<close>, \<^verbatim>\<open>update_preview\<close> and
  \<^verbatim>\<open>update_title_and_status\<close> only redraw from these attributes.
\<close>

record MainWindow =
  frames :: "FrameData list"
  current_index :: int
  default_duration_ms :: int
  animation_mode :: string
  is_playing :: bool
  play_timer :: "int option"
  wave_direction :: int
  unsaved_changes :: bool
  current_gif_path :: "string option"

datatype py_error = IndexError | OSError

text \<open>Python's \<^verbatim>\<open>xs[i]\<close>: a negative index counts from the end, anything else out of range raises.\<close>

definition getitem :: "'a list \<Rightarrow> int \<Rightarrow> py_error + 'a" where
  "getitem xs i =
     (if 0 \<le> i \<and> i < int (length xs) then Inr (xs ! nat i)
      else if i < 0 \<and> - int (length xs) \<le> i then Inr (xs ! nat (int (length xs) + i))
      else Inl IndexError)"

section \<open>Unsaved flag\<close>

definition mark_unsaved :: "MainWindow \<Rightarrow> MainWindow" where
  "mark_unsaved s = s\<lparr>unsaved_changes := True\<rparr>"

section \<open>Playback\<close>

definition stop_playback :: "MainWindow \<Rightarrow> MainWindow" where
  "stop_playback s = s\<lparr>is_playing := False, play_timer := None\<rparr>"

definition start_playback :: "MainWindow \<Rightarrow> py_error + MainWindow" where
  "start_playback s =
     (if frames s = [] then Inr s
      else
        (let s1 = s\<lparr>is_playing := True, play_timer := None\<rparr> in
         if current_index s1 \<ge> 0 then
           (case getitem (frames s1) (current_index s1) of
              Inl e \<Rightarrow> Inl e
            | Inr f \<Rightarrow> Inr (s1\<lparr>play_timer := Some (max 10 (duration_ms f))\<rparr>))
         else Inr (s1\<lparr>play_timer := Some (max 10 (default_duration_ms s1))\<rparr>)))"

text \<open>
  \<^verbatim>\<open>get_next_index_for_mode\<close> returns the next index and, in wave mode, stores the direction
  it used; the result is the pair of the returned index and the window after the call.
\<close>

definition get_next_index_for_mode :: "MainWindow \<Rightarrow> int \<times> MainWindow" where
  "get_next_index_for_mode s =
     (let n = int (length (frames s)) in
      if n = 0 then (0, s)
      else if animation_mode s = ''loop'' then ((current_index s + 1) mod n, s)
      else if animation_mode s = ''wave'' then
        (let s1 = (if current_index s \<le> 0 then s\<lparr>wave_direction := 1\<rparr>
                   else if current_index s \<ge> n - 1 then s\<lparr>wave_direction := - 1\<rparr>
                   else s)
         in (max 0 (min (n - 1) (current_index s1 + wave_direction s1)), s1))
      else ((current_index s + 1) mod n, s))"

definition advance_frame_for_playback :: "MainWindow \<Rightarrow> py_error + MainWindow" where
  "advance_frame_for_playback s =
     (if frames s = [] then Inr (stop_playback s)
      else
        (let (nxt, s1) = get_next_index_for_mode s;
             s2 = s1\<lparr>current_index := nxt\<rparr>
         in case getitem (frames s2) (current_index s2) of
              Inl e \<Rightarrow> Inl e
            | Inr f \<Rightarrow> Inr (s2\<lparr>play_timer := Some (max 10 (duration_ms f))\<rparr>)))"

text \<open>The timer firing \<open>k\<close> times in a row, with no other event in between.\<close>

fun ticks :: "nat \<Rightarrow> MainWindow \<Rightarrow> py_error + MainWindow" where
  "ticks 0 s = Inr s"
| "ticks (Suc k) s =
     (case ticks k s of Inl e \<Rightarrow> Inl e | Inr s' \<Rightarrow> advance_frame_for_playback s')"

definition cursor_after :: "nat \<Rightarrow> MainWindow \<Rightarrow> int option" where
  "cursor_after k s = (case ticks k s of Inl e \<Rightarrow> None | Inr s' \<Rightarrow> Some (current_index s'))"

section \<open>Timeline edits\<close>

text \<open>
  \<^verbatim>\<open>remove_selected\<close> starts from \<^verbatim>\<open>idx = self.get_selected_index()\<close>, the row that is
  current in the list widget (\<open>- 1\<close> when there is none). The widget is not part of the model,
  so \<open>idx\<close> is an argument. It is the list's selection, which playback and the step buttons
  do not move, and so it need not be equal to \<open>current_index\<close>.
\<close>

definition remove_selected :: "int \<Rightarrow> MainWindow \<Rightarrow> MainWindow" where
  "remove_selected idx s =
     (if idx < 0 \<or> idx \<ge> int (length (frames s)) then s
      else
        (let s1 = s\<lparr>frames := take (nat idx) (frames s) @ drop (Suc (nat idx)) (frames s)\<rparr>;
             s2 = (if frames s1 = [] then s1\<lparr>current_index := - 1\<rparr>
                   else s1\<lparr>current_index := max 0 (min idx (int (length (frames s1)) - 1))\<rparr>)
         in mark_unsaved s2))"

definition on_default_duration_changed :: "int \<Rightarrow> MainWindow \<Rightarrow> MainWindow" where
  "on_default_duration_changed v s =
     mark_unsaved
       (s\<lparr>default_duration_ms := v,
          frames := map (\<lambda>f. if \<not> is_custom_duration f then f\<lparr>duration_ms := v\<rparr> else f) (frames s)\<rparr>)"

section \<open>The world outside the program\<close>

text \<open>
  An RGBA image is kept as where it was loaded from and its size. \<open>gif_call\<close> holds the
  arguments of the one encoder call of the program,
  \<^verbatim>\<open>images[0].save(str(path), save_all=True, append_images=images[1:], duration=durations,
  loop=0, disposal=2)\<close>.
\<close>

record image =
  img_source :: string
  img_width :: int
  img_height :: int

record gif_call =
  gif_path :: string
  gif_first :: image
  gif_append_images :: "image list"
  gif_duration :: "int list"
  gif_loop :: int
  gif_disposal :: int

text \<open>
  What the file system, \<^verbatim>\<open>pathlib\<close>, Pillow and the SVG widget answer. These are library calls,
  not code of the program, so each is a parameter: the theorems hold whatever they answer.
  A field named \<open>..._raises\<close> tells whether the call ends in an exception.
\<close>

record world =
  path_exists :: "string \<Rightarrow> bool"
  str_of_path :: "string \<Rightarrow> string"
  path_name :: "string \<Rightarrow> string"
  path_stem :: "string \<Rightarrow> string"
  path_suffix :: "string \<Rightarrow> string"
  path_with_suffix :: "string \<Rightarrow> string \<Rightarrow> string"
  path_join :: "string \<Rightarrow> string \<Rightarrow> string"
  tmp_dir :: string
  open_rgba :: "string \<Rightarrow> (int \<times> int) option"
  svg_raises :: "string \<Rightarrow> bool"
  resize_raises :: "image \<Rightarrow> int \<times> int \<Rightarrow> bool"
  gif_save_raises :: "gif_call \<Rightarrow> bool"
  gif_decode :: "string \<Rightarrow> int option list option"
  mkdir_raises :: "string \<Rightarrow> bool"
  frame_save_raises :: "string \<Rightarrow> bool"
  image_open_raises :: "string \<Rightarrow> bool"
  image_save_raises :: "string \<Rightarrow> bool"
  pixmap_save :: "string \<Rightarrow> bool"

text \<open>\<^verbatim>\<open>str.lower\<close> and \<^verbatim>\<open>str.endswith\<close>, on ASCII.\<close>

definition lower_char :: "char \<Rightarrow> char" where
  "lower_char c =
     (case map_of (zip ''ABCDEFGHIJKLMNOPQRSTUVWXYZ'' ''abcdefghijklmnopqrstuvwxyz'') c of
        None \<Rightarrow> c | Some d \<Rightarrow> d)"

definition str_lower :: "string \<Rightarrow> string" where
  "str_lower s = map lower_char s"

definition endswith :: "string \<Rightarrow> string \<Rightarrow> bool" where
  "endswith s suf = (length suf \<le> length s \<and> drop (length s - length suf) s = suf)"

section \<open>Loading a frame\<close>

text \<open>
  \<^verbatim>\<open>load_frame_image(frame, expected_size)\<close> returns \<^verbatim>\<open>(img, width, height)\<close>, and
  \<^verbatim>\<open>(None, 0, 0)\<close> when the path is empty or missing or anything in the \<^verbatim>\<open>try\<close> block raises.
  A size tuple is never falsy, so \<^verbatim>\<open>expected_size or (512, 512)\<close> and \<^verbatim>\<open>if expected_size\<close> test
  for \<^verbatim>\<open>None\<close> only.
\<close>

definition load_frame_image ::
  "world \<Rightarrow> FrameData \<Rightarrow> (int \<times> int) option \<Rightarrow> image option \<times> int \<times> int" where
  "load_frame_image w frame expected_size =
     (if source_path frame = [] then (None, 0, 0)
      else if \<not> path_exists w (source_path frame) then (None, 0, 0)
      else
        (case
           (if str_lower (path_suffix w (source_path frame)) = ''.svg'' then
              (if svg_raises w (source_path frame) then None
               else
                 (let sz = (case expected_size of None \<Rightarrow> (512, 512) | Some e \<Rightarrow> e)
                  in Some \<lparr>img_source = source_path frame, img_width = fst sz, img_height = snd sz\<rparr>))
            else
              (case open_rgba w (source_path frame) of
                 None \<Rightarrow> None
               | Some sz \<Rightarrow>
                   Some \<lparr>img_source = source_path frame, img_width = fst sz, img_height = snd sz\<rparr>))
         of
           None \<Rightarrow> (None, 0, 0)
         | Some img \<Rightarrow>
             (case expected_size of
                None \<Rightarrow> (Some img, img_width img, img_height img)
              | Some e \<Rightarrow>
                  (if resize_raises w img e then (None, 0, 0)
                   else (Some (img\<lparr>img_width := fst e, img_height := snd e\<rparr>), fst e, snd e)))))"

section \<open>Saving the animated GIF\<close>

datatype save_result =
    SaveCancelled
  | NoFramesToSave
  | CouldNotLoadFirstFrame
  | NoFramesCouldBeLoaded
  | ErrorSavingGif gif_call
  | SavedGif gif_call

text \<open>The loop of \<^verbatim>\<open>_save_gif_to_path\<close> over all frames, with its two accumulators.\<close>

fun collect_images ::
  "world \<Rightarrow> int \<times> int \<Rightarrow> FrameData list \<Rightarrow> image list \<times> int list \<Rightarrow> image list \<times> int list" where
  "collect_images w out_size [] acc = acc"
| "collect_images w out_size (f # fs) (images, durations) =
     (case load_frame_image w f (Some out_size) of
        (None, _, _) \<Rightarrow> collect_images w out_size fs (images, durations)
      | (Some img, _, _) \<Rightarrow>
          collect_images w out_size fs (images @ [img], durations @ [duration_ms f]))"

definition save_gif_to_path :: "world \<Rightarrow> string \<Rightarrow> MainWindow \<Rightarrow> save_result \<times> MainWindow" where
  "save_gif_to_path w path s =
     (case frames s of
        [] \<Rightarrow> (NoFramesToSave, s)
      | f0 # _ \<Rightarrow>
          (case load_frame_image w f0 None of
             (None, _, _) \<Rightarrow> (CouldNotLoadFirstFrame, s)
           | (Some first_img, wd, ht) \<Rightarrow>
               (case collect_images w (wd, ht) (frames s) ([], []) of
                  ([], _) \<Rightarrow> (NoFramesCouldBeLoaded, s)
                | (img0 # rest, durations) \<Rightarrow>
                    (let call = \<lparr>gif_path = path, gif_first = img0, gif_append_images = rest,
                                 gif_duration = durations, gif_loop = 0, gif_disposal = 2\<rparr>
                     in if gif_save_raises w call then (ErrorSavingGif call, s)
                        else (SavedGif call, s\<lparr>unsaved_changes := False\<rparr>)))))"





section \<open>Adding images\<close>

text \<open>\<open>files\<close> is the answer of the file dialog, the empty list when the user cancels.\<close>

definition add_images :: "world \<Rightarrow> string list \<Rightarrow> MainWindow \<Rightarrow> py_error + MainWindow" where
  "add_images w files s =
     (if files = [] then Inr s
      else
        (let s1 = s\<lparr>frames := frames s @
                    map (\<lambda>f. \<lparr>source_path = str_of_path w f, display_name = path_name w f,
                              duration_ms = default_duration_ms s, is_custom_duration = False,
                              is_checked = False\<rparr>) files\<rparr>;
             s2 = (if current_index s1 = - 1 \<and> frames s1 \<noteq> [] then s1\<lparr>current_index := 0\<rparr> else s1);
             s3 = mark_unsaved s2
         in if frames s3 \<noteq> [] \<and> \<not> is_playing s3 then start_playback s3 else Inr s3))"

section \<open>Opening an animated GIF\<close>











section \<open>Exporting the checked frames\<close>

text \<open>
  The loop of \<^verbatim>\<open>export_checked\<close> over the checked frames; the result is the list of the
  files it wrote. \<^verbatim>\<open>Image.open\<close> and \<^verbatim>\<open>img.save\<close> are not guarded by a \<^verbatim>\<open>try\<close>, so an
  exception of either leaves the function; \<^verbatim>\<open>QPixmap.save\<close> answers whether it wrote.
\<close>

fun export_frames :: "world \<Rightarrow> string \<Rightarrow> FrameData list \<Rightarrow> py_error + string list" where
  "export_frames w out_dir [] = Inr []"
| "export_frames w out_dir (f # fs) =
     (if source_path f = [] \<or> \<not> path_exists w (source_path f) then export_frames w out_dir fs
      else if str_lower (path_suffix w (source_path f)) = ''.svg'' then
        (let export_path = path_join w out_dir
               (if endswith (str_lower (display_name f)) ''.png'' then display_name f
                else display_name f @ ''.png'')
         in case export_frames w out_dir fs of
              Inl e \<Rightarrow> Inl e
            | Inr written \<Rightarrow> Inr (if pixmap_save w export_path then export_path # written else written))
      else if image_open_raises w (source_path f) then Inl OSError
      else
        (let export_path0 = path_join w out_dir (display_name f);
             export_path = (if path_suffix w export_path0 = [] then path_with_suffix w export_path0 ''.png''
                            else export_path0)
         in if image_save_raises w export_path then Inl OSError
            else
              (case export_frames w out_dir fs of
                 Inl e \<Rightarrow> Inl e
               | Inr written \<Rightarrow> Inr (export_path # written))))"

text \<open>
  \<open>Exported written n\<close>: the loop ended, \<open>written\<close> are the files it wrote and \<open>n\<close> is the
  number in the message \<^verbatim>\<open>Exported {len(checked)} frame(s) to {out_dir}\<close>.
  \<open>out_dir_str\<close> is the answer of the folder dialog, empty when the user cancels.
\<close>

datatype export_result = NoCheckedFrames | ExportCancelled | Exported "string list" nat

definition export_checked :: "world \<Rightarrow> string \<Rightarrow> MainWindow \<Rightarrow> py_error + export_result" where
  "export_checked w out_dir_str s =
     (let checked = filter is_checked (frames s) in
      if checked = [] then Inr NoCheckedFrames
      else if out_dir_str = [] then Inr ExportCancelled
      else
        (case export_frames w (str_of_path w out_dir_str) checked of
           Inl e \<Rightarrow> Inl e
         | Inr written \<Rightarrow> Inr (Exported written (length checked))))"

section \<open>Reference notions for the statements\<close>


text \<open>
  In the words of the specification: the frames that load at the canonical size, in timeline
  order, each image paired with the \<open>duration_ms\<close> of its own frame.
\<close>

definition surviving_pairs :: "world \<Rightarrow> int \<times> int \<Rightarrow> FrameData list \<Rightarrow> (image \<times> int) list" where
  "surviving_pairs w out_size fs =
     List.map_filter
       (\<lambda>f. case fst (load_frame_image w f (Some out_size)) of
               None \<Rightarrow> None
             | Some img \<Rightarrow> Some (img, duration_ms f)) fs"

section \<open>Example timelines and an example disk\<close>

definition frame_a :: FrameData where
  "frame_a = \<lparr>source_path = ''a.png'', display_name = ''a.png'', duration_ms = 100,
              is_custom_duration = False, is_checked = False\<rparr>"

definition frame_b :: FrameData where
  "frame_b = \<lparr>source_path = ''b.png'', display_name = ''b.png'', duration_ms = 250,
              is_custom_duration = True, is_checked = True\<rparr>"

definition frame_c :: FrameData where
  "frame_c = \<lparr>source_path = ''c.png'', display_name = ''c.png'', duration_ms = 40,
              is_custom_duration = False, is_checked = False\<rparr>"

definition frame_gone :: FrameData where
  "frame_gone = \<lparr>source_path = ''gone.png'', display_name = ''gone.png'', duration_ms = 100,
                 is_custom_duration = False, is_checked = True\<rparr>"

definition frame_fragile :: FrameData where
  "frame_fragile = \<lparr>source_path = ''fragile.png'', display_name = ''fragile.png'', duration_ms = 100,
                    is_custom_duration = False, is_checked = False\<rparr>"

definition three_frames :: MainWindow where
  "three_frames = \<lparr>frames = [frame_a, frame_b, frame_c], current_index = 0,
                   default_duration_ms = 100, animation_mode = ''wave'', is_playing = True,
                   play_timer = Some 100, wave_direction = 1, unsaved_changes = False,
                   current_gif_path = None\<rparr>"

definition one_frame :: MainWindow where
  "one_frame = three_frames\<lparr>frames := [frame_a], wave_direction := - 1\<rparr>"

definition no_frames :: MainWindow where
  "no_frames = three_frames\<lparr>frames := [], current_index := - 1\<rparr>"

text \<open>
  A disk on which every file exists and decodes to a 4 by 3 image, except that
  \<^verbatim>\<open>gone.png\<close> is missing and \<^verbatim>\<open>fragile.png\<close> decodes but cannot be resized; two GIF files
  decode, one with equal durations and one with different durations and one sub-image that
  declares none.
\<close>

definition disk :: world where
  "disk = \<lparr>path_exists = (\<lambda>p. p \<noteq> ''gone.png''),
           str_of_path = (\<lambda>p. p),
           path_name = (\<lambda>p. p),
           path_stem = (\<lambda>p. ''anim''),
           path_suffix = (\<lambda>p. ''.png''),
           path_with_suffix = (\<lambda>p e. p @ e),
           path_join = (\<lambda>d n. d @ ''/'' @ n),
           tmp_dir = ''_tmp_frames'',
           open_rgba = (\<lambda>p. Some (4, 3)),
           svg_raises = (\<lambda>p. False),
           resize_raises = (\<lambda>img e. img_source img = ''fragile.png''),
           gif_save_raises = (\<lambda>c. False),
           gif_decode = (\<lambda>p. if p = ''same.gif'' then Some [Some 120, Some 120]
                              else if p = ''mixed.gif'' then Some [Some 100, None, Some 30]
                              else None),
           mkdir_raises = (\<lambda>d. False),
           frame_save_raises = (\<lambda>p. False),
           image_open_raises = (\<lambda>p. False),
           image_save_raises = (\<lambda>p. False),
           pixmap_save = (\<lambda>p. True)\<rparr>"

definition mixed_frames :: MainWindow where
  "mixed_frames = three_frames\<lparr>frames := [frame_a, frame_gone, frame_fragile, frame_b]\<rparr>"

definition gone_first :: MainWindow where
  "gone_first = three_frames\<lparr>frames := [frame_gone, frame_a]\<rparr>"

definition fragile_only :: MainWindow where
  "fragile_only = three_frames\<lparr>frames := [frame_fragile]\<rparr>"

definition two_checked :: MainWindow where
  "two_checked = three_frames\<lparr>frames := [frame_a, frame_b, frame_gone]\<rparr>"



section \<open>Playback: the advance rule and the tick\<close>

lemma getitem_in_range: "0 \<le> i \<Longrightarrow> i < int (length xs) \<Longrightarrow> getitem xs i = Inr (xs ! nat i)"
  by (simp add: getitem_def)

lemma next_index_frames: "frames (snd (get_next_index_for_mode s)) = frames s"
  by (simp add: get_next_index_for_mode_def Let_def)

lemma next_index_in_range:
  assumes "frames s \<noteq> []"
  shows "0 \<le> fst (get_next_index_for_mode s) \<and> fst (get_next_index_for_mode s) < int (length (frames s))"
proof -
  from assms have n: "0 < int (length (frames s))" by simp
  then show ?thesis
    by (auto simp: get_next_index_for_mode_def Let_def)
qed

lemma wave_step:
  assumes "frames s \<noteq> []" and "animation_mode s = ''wave''"
  shows "get_next_index_for_mode s =
     (let d = (if current_index s \<le> 0 then 1
               else if current_index s \<ge> int (length (frames s)) - 1 then - 1
               else wave_direction s)
      in (max 0 (min (int (length (frames s)) - 1) (current_index s + d)), s\<lparr>wave_direction := d\<rparr>))"
  using assms by (auto simp: get_next_index_for_mode_def Let_def)

lemma advance_nonempty:
  assumes "frames s \<noteq> []"
  shows "advance_frame_for_playback s =
     Inr ((snd (get_next_index_for_mode s))
          \<lparr>current_index := fst (get_next_index_for_mode s),
           play_timer := Some (max 10 (duration_ms (frames s ! nat (fst (get_next_index_for_mode s)))))\<rparr>)"
  using next_index_in_range[OF assms] assms
  by (simp add: advance_frame_for_playback_def case_prod_beta Let_def next_index_frames getitem_in_range)

lemma advance_wave:
  assumes "frames s \<noteq> []" and "animation_mode s = ''wave''"
  shows "\<exists>s'. advance_frame_for_playback s = Inr s' \<and> frames s' = frames s \<and> animation_mode s' = ''wave''
     \<and> wave_direction s' = (if current_index s \<le> 0 then 1
               else if current_index s \<ge> int (length (frames s)) - 1 then - 1
               else wave_direction s)
     \<and> current_index s' = max 0 (min (int (length (frames s)) - 1) (current_index s + wave_direction s'))"
  using assms by (simp add: advance_nonempty wave_step Let_def)

text \<open>
  Three frames in wave mode, from the first frame: after \<open>k\<close> ticks the cursor is the
  \<open>k mod 4\<close>-th entry of 0, 1, 2, 1, and the stored direction is the one of that leg.
\<close>

lemma wave3_ticks:
  assumes "length (frames s) = 3" and "animation_mode s = ''wave''" and "current_index s = 0"
  shows "\<exists>s'. ticks k s = Inr s' \<and> frames s' = frames s \<and> animation_mode s' = ''wave''
     \<and> current_index s' = [0, 1, 2, 1] ! (k mod 4)
     \<and> (0 < k \<longrightarrow> wave_direction s' = (if k mod 4 = 1 \<or> k mod 4 = 2 then 1 else - 1))"
proof (induction k)
  case 0
  then show ?case using assms by simp
next
  case (Suc k)
  then obtain s1 where s1: "ticks k s = Inr s1" "frames s1 = frames s" "animation_mode s1 = ''wave''"
    "current_index s1 = [0, 1, 2, 1] ! (k mod 4)"
    "0 < k \<longrightarrow> wave_direction s1 = (if k mod 4 = 1 \<or> k mod 4 = 2 then 1 else - 1)"
    by blast
  have ne: "frames s1 \<noteq> []" using s1(2) assms(1) by auto
  from advance_wave[OF ne s1(3)] obtain s2 where s2: "advance_frame_for_playback s1 = Inr s2"
    "frames s2 = frames s1" "animation_mode s2 = ''wave''"
    "wave_direction s2 = (if current_index s1 \<le> 0 then 1
               else if current_index s1 \<ge> int (length (frames s1)) - 1 then - 1
               else wave_direction s1)"
    "current_index s2 = max 0 (min (int (length (frames s1)) - 1) (current_index s1 + wave_direction s2))"
    by blast
  have len: "int (length (frames s1)) = 3" using s1(2) assms(1) by simp
  have legs: "k mod 4 = 0 \<or> k mod 4 = 1 \<or> k mod 4 = 2 \<or> k mod 4 = 3" by arith
  have "current_index s2 = [0, 1, 2, 1] ! (Suc k mod 4)
     \<and> wave_direction s2 = (if Suc k mod 4 = 1 \<or> Suc k mod 4 = 2 then 1 else - 1)"
    using legs
  proof (elim disjE)
    assume m: "k mod 4 = 0"
    then have "Suc k mod 4 = 1" by (simp add: mod_Suc)
    then show ?thesis using m s1(4) s2(4,5) len by simp
  next
    assume m: "k mod 4 = 1"
    then have "Suc k mod 4 = 2" by (simp add: mod_Suc)
    moreover from m have "0 < k" by (cases k) auto
    ultimately show ?thesis using m s1(4,5) s2(4,5) len by simp
  next
    assume m: "k mod 4 = 2"
    then have "Suc k mod 4 = 3" by (simp add: mod_Suc)
    moreover from m have "0 < k" by (cases k) auto
    ultimately show ?thesis using m s1(4,5) s2(4,5) len by simp
  next
    assume m: "k mod 4 = 3"
    then have "Suc k mod 4 = 0" by (simp add: mod_Suc)
    moreover from m have "0 < k" by (cases k) auto
    ultimately show ?thesis using m s1(4,5) s2(4,5) len by simp
  qed
  then show ?case using s1(1,2) s2(1,2,3) by simp
qed

lemma wave1_ticks:
  assumes "length (frames s) = 1" and "animation_mode s = ''wave''" and "current_index s = 0"
  shows "\<exists>s'. ticks k s = Inr s' \<and> frames s' = frames s \<and> animation_mode s' = ''wave''
     \<and> current_index s' = 0"
proof (induction k)
  case 0
  then show ?case using assms by simp
next
  case (Suc k)
  then obtain s1 where s1: "ticks k s = Inr s1" "frames s1 = frames s" "animation_mode s1 = ''wave''"
    "current_index s1 = 0" by blast
  have ne: "frames s1 \<noteq> []" using s1(2) assms(1) by auto
  from advance_wave[OF ne s1(3)] s1 assms(1) show ?case by auto
qed

text \<open>
  C1, as the code has it. In wave mode on a timeline of \<open>n \<ge> 1\<close> frames, one advance step
  sets the direction to +1 when the cursor is \<open>\<le> 0\<close>, otherwise to -1 when the cursor is
  \<open>\<ge> n - 1\<close>, and otherwise keeps the stored direction; it stores that direction and
  returns \<open>clamp (cursor + direction) 0 (n - 1)\<close>. On three frames, from cursor 0, the
  cursor after \<open>k\<close> ticks runs through 0, 1, 2, 1, 0, 1, 2, ... for ever, and on one frame it
  stays at 0 for ever. The two tests are an \<^verbatim>\<open>if\<close> and an \<^verbatim>\<open>elif\<close>: when both hold, which is
  the case of one frame with the cursor on it, the direction is +1.
\<close>

theorem wave_advance_rule:
  assumes "frames s \<noteq> []" and "animation_mode s = ''wave''"
  shows "get_next_index_for_mode s =
           (let d = (if current_index s \<le> 0 then 1
                     else if current_index s \<ge> int (length (frames s)) - 1 then - 1
                     else wave_direction s)
            in (max 0 (min (int (length (frames s)) - 1) (current_index s + d)),
                s\<lparr>wave_direction := d\<rparr>))
     \<and> (length (frames s) = 3 \<and> current_index s = 0 \<longrightarrow>
          (\<forall>k. cursor_after k s = Some ([0, 1, 2, 1] ! (k mod 4))))
     \<and> (length (frames s) = 1 \<and> current_index s = 0 \<longrightarrow>
          (\<forall>k. cursor_after k s = Some 0))"
proof (intro conjI impI allI)
  show "get_next_index_for_mode s =
           (let d = (if current_index s \<le> 0 then 1
                     else if current_index s \<ge> int (length (frames s)) - 1 then - 1
                     else wave_direction s)
            in (max 0 (min (int (length (frames s)) - 1) (current_index s + d)),
                s\<lparr>wave_direction := d\<rparr>))"
    by (rule wave_step[OF assms])
next
  fix k
  assume "length (frames s) = 3 \<and> current_index s = 0"
  then have "\<exists>s'. ticks k s = Inr s' \<and> current_index s' = [0, 1, 2, 1] ! (k mod 4)"
    using wave3_ticks[of s k] assms(2) by blast
  then show "cursor_after k s = Some ([0, 1, 2, 1] ! (k mod 4))"
    by (auto simp: cursor_after_def)
next
  fix k
  assume "length (frames s) = 1 \<and> current_index s = 0"
  then have "\<exists>s'. ticks k s = Inr s' \<and> current_index s' = 0"
    using wave1_ticks[of s k] assms(2) by blast
  then show "cursor_after k s = Some 0"
    by (auto simp: cursor_after_def)
qed

theorem wave_advance_rule_witness:
  "frames three_frames \<noteq> [] \<and> animation_mode three_frames = ''wave''
   \<and> length (frames three_frames) = 3 \<and> current_index three_frames = 0
   \<and> get_next_index_for_mode three_frames = (1, three_frames\<lparr>wave_direction := 1\<rparr>)
   \<and> cursor_after 6 three_frames = Some 2
   \<and> cursor_after 7 three_frames = Some 1
   \<and> length (frames one_frame) = 1 \<and> current_index one_frame = 0
   \<and> cursor_after 5 one_frame = Some 0"
proof -
  have h3: "frames three_frames \<noteq> []" "animation_mode three_frames = ''wave''"
    "length (frames three_frames) = 3 \<and> current_index three_frames = 0"
    by (simp_all add: three_frames_def)
  have h1: "frames one_frame \<noteq> []" "animation_mode one_frame = ''wave''"
    "length (frames one_frame) = 1 \<and> current_index one_frame = 0"
    by (simp_all add: one_frame_def three_frames_def)
  from wave_advance_rule[OF h3(1,2)] h3(3)
  have a: "get_next_index_for_mode three_frames = (1, three_frames\<lparr>wave_direction := 1\<rparr>)"
    and b: "\<forall>k. cursor_after k three_frames = Some ([0, 1, 2, 1] ! (k mod 4))"
    by (simp_all add: Let_def)
  from wave_advance_rule[OF h1(1,2)] h1(3)
  have c: "\<forall>k. cursor_after k one_frame = Some 0"
    by simp
  have "cursor_after 6 three_frames = Some 2" "cursor_after 7 three_frames = Some 1"
    using b by simp_all
  then show ?thesis using h3 h1 a c by simp
qed

text \<open>
  On one frame in wave mode with the cursor on it, the cursor is \<open>\<ge> n - 1\<close>, and the step
  leaves the direction at +1, not at -1 (it was -1 before the step).
\<close>

theorem wave_single_frame_counterexample:
  "int (length (frames one_frame)) \<ge> 1 \<and> animation_mode one_frame = ''wave''
   \<and> current_index one_frame \<ge> int (length (frames one_frame)) - 1
   \<and> wave_direction one_frame = - 1
   \<and> wave_direction (snd (get_next_index_for_mode one_frame)) = 1
   \<and> wave_direction (snd (get_next_index_for_mode one_frame)) \<noteq> - 1"
  by (simp add: one_frame_def three_frames_def get_next_index_for_mode_def)

text \<open>
  C3. On a timeline that is not empty, a tick returns normally. It assigns the index given by
  the advance rule to the cursor, which is a valid index, and then starts the timer with
  \<open>max 10\<close> of the \<open>duration_ms\<close> of the frame at that new cursor.
\<close>

theorem tick_schedules_new_frame:
  assumes "frames s \<noteq> []"
  shows "\<exists>s'. advance_frame_for_playback s = Inr s'
     \<and> current_index s' = fst (get_next_index_for_mode s)
     \<and> 0 \<le> current_index s' \<and> current_index s' < int (length (frames s'))
     \<and> frames s' = frames s
     \<and> play_timer s' = Some (max 10 (duration_ms (frames s' ! nat (current_index s'))))"
  using next_index_in_range[OF assms] next_index_frames[of s]
  unfolding advance_nonempty[OF assms] by simp

text \<open>
  In loop mode from the first of three frames (100 ms) the tick moves to the second frame and
  schedules its 250 ms.
\<close>

theorem tick_schedules_new_frame_witness:
  "frames (three_frames\<lparr>animation_mode := ''loop''\<rparr>) \<noteq> []
   \<and> current_index (three_frames\<lparr>animation_mode := ''loop''\<rparr>) = 0
   \<and> duration_ms (frames (three_frames\<lparr>animation_mode := ''loop''\<rparr>) ! 0) = 100
   \<and> (\<exists>s'. advance_frame_for_playback (three_frames\<lparr>animation_mode := ''loop''\<rparr>) = Inr s'
         \<and> current_index s' = 1 \<and> play_timer s' = Some 250)"
proof -
  let ?s = "three_frames\<lparr>animation_mode := ''loop''\<rparr>"
  have h: "frames ?s \<noteq> []" by (simp add: three_frames_def)
  have n: "fst (get_next_index_for_mode ?s) = 1"
    by (simp add: get_next_index_for_mode_def three_frames_def)
  have f: "duration_ms (frames ?s ! 0) = 100" "duration_ms (frames ?s ! 1) = 250"
    "current_index ?s = 0"
    by (simp_all add: three_frames_def frame_a_def frame_b_def)
  from tick_schedules_new_frame[OF h] obtain s' where
    s': "advance_frame_for_playback ?s = Inr s'" "current_index s' = fst (get_next_index_for_mode ?s)"
      "frames s' = frames ?s"
      "play_timer s' = Some (max 10 (duration_ms (frames s' ! nat (current_index s'))))"
    by blast
  from s'(2) n have c: "current_index s' = 1" by simp
  from s'(3,4) c f(2) have t: "play_timer s' = Some 250" by simp
  have "\<exists>s'. advance_frame_for_playback ?s = Inr s' \<and> current_index s' = 1 \<and> play_timer s' = Some 250"
    using s'(1) c t by (intro exI[of _ s'] conjI)
  then show ?thesis using h f(1,3) by (intro conjI)
qed

text \<open>
  C9. A tick on an empty timeline stops playback: \<open>is_playing\<close> becomes false and the timer
  is stopped. Nothing is indexed, and the cursor and every other attribute stay as they were.
\<close>

theorem tick_on_empty_timeline:
  assumes "frames s = []"
  shows "advance_frame_for_playback s = Inr (s\<lparr>is_playing := False, play_timer := None\<rparr>)
     \<and> current_index (s\<lparr>is_playing := False, play_timer := None\<rparr>) = current_index s"
  using assms by (simp add: advance_frame_for_playback_def stop_playback_def)

theorem tick_on_empty_timeline_witness:
  "frames no_frames = [] \<and> is_playing no_frames \<and> play_timer no_frames = Some 100
   \<and> advance_frame_for_playback no_frames = Inr (no_frames\<lparr>is_playing := False, play_timer := None\<rparr>)
   \<and> current_index (no_frames\<lparr>is_playing := False, play_timer := None\<rparr>) = - 1"
proof -
  have h: "frames no_frames = []" by (simp add: no_frames_def)
  from tick_on_empty_timeline[OF h] show ?thesis
    by (simp add: no_frames_def three_frames_def)
qed

section \<open>Timeline edits\<close>

lemma remove_in_range:
  assumes "0 \<le> idx" and "idx < int (length (frames s))"
  shows "length (frames (remove_selected idx s)) = length (frames s) - 1
     \<and> (\<forall>j < length (frames s) - 1.
           frames (remove_selected idx s) ! j = (if int j < idx then frames s ! j else frames s ! Suc j))
     \<and> current_index (remove_selected idx s) =
          (if length (frames s) = 1 then - 1
           else max 0 (min idx (int (length (frames (remove_selected idx s))) - 1)))
     \<and> unsaved_changes (remove_selected idx s)"
proof -
  let ?fs = "take (nat idx) (frames s) @ drop (Suc (nat idx)) (frames s)"
  from assms have i: "nat idx < length (frames s)" by simp
  have fr: "frames (remove_selected idx s) = ?fs"
    using assms by (simp add: remove_selected_def Let_def mark_unsaved_def)
  have len: "length ?fs = length (frames s) - 1" using i by simp
  have nth: "\<forall>j < length (frames s) - 1. ?fs ! j = (if int j < idx then frames s ! j else frames s ! Suc j)"
  proof (intro allI impI)
    fix j assume j: "j < length (frames s) - 1"
    show "?fs ! j = (if int j < idx then frames s ! j else frames s ! Suc j)"
    proof (cases "int j < idx")
      case True
      then have "j < nat idx" by simp
      then show ?thesis using True i by (simp add: nth_append)
    next
      case False
      then have ge: "nat idx \<le> j" by simp
      then have "?fs ! j = drop (Suc (nat idx)) (frames s) ! (j - nat idx)"
        using i by (simp add: nth_append min_def)
      also have "\<dots> = frames s ! (Suc (nat idx) + (j - nat idx))"
        using j i ge by (intro nth_drop) simp
      finally show ?thesis using False ge by simp
    qed
  qed
  have emp: "(?fs = []) = (length (frames s) = 1)"
  proof -
    have "(?fs = []) = (length ?fs = 0)" by blast
    also have "\<dots> = (length (frames s) - 1 = 0)" by (simp only: len)
    also have "\<dots> = (length (frames s) = 1)" using i by arith
    finally show ?thesis .
  qed
  have cur: "current_index (remove_selected idx s) =
          (if length (frames s) = 1 then - 1
           else max 0 (min idx (int (length ?fs) - 1)))"
    using assms emp
    by (simp add: remove_selected_def Let_def mark_unsaved_def del: length_append length_take length_drop)
  have uns: "unsaved_changes (remove_selected idx s)"
    using assms by (simp add: remove_selected_def Let_def mark_unsaved_def)
  show ?thesis using fr len nth cur uns by simp
qed

lemma remove_out_of_range:
  "idx < 0 \<or> int (length (frames s)) \<le> idx \<Longrightarrow> remove_selected idx s = s"
  by (auto simp: remove_selected_def)

text \<open>
  C2, as the code has it. For an index in range, removing deletes the frame at that index
  (the frames before it stay, the frames after it move down by one) and sets the cursor to
  \<open>clamp index 0 (new_len - 1)\<close>, computed from the removed index and not from the cursor
  that held before, or to -1 when the timeline becomes empty. An index out of range changes
  nothing.
\<close>

theorem remove_selected_cursor:
  "(0 \<le> idx \<and> idx < int (length (frames s)) \<longrightarrow>
      length (frames (remove_selected idx s)) = length (frames s) - 1
      \<and> (\<forall>j < length (frames s) - 1.
            frames (remove_selected idx s) ! j =
              (if int j < idx then frames s ! j else frames s ! Suc j))
      \<and> current_index (remove_selected idx s) =
           (if length (frames s) = 1 then - 1
            else max 0 (min idx (int (length (frames (remove_selected idx s))) - 1))))
   \<and> (idx < 0 \<or> int (length (frames s)) \<le> idx \<longrightarrow> remove_selected idx s = s)"
  using remove_in_range[of idx s] remove_out_of_range[of idx s] by blast

theorem remove_selected_cursor_witness:
  "(0::int) \<le> 0 \<and> 0 < int (length (frames (three_frames\<lparr>current_index := 2\<rparr>)))
   \<and> frames (remove_selected 0 (three_frames\<lparr>current_index := 2\<rparr>)) = [frame_b, frame_c]
   \<and> current_index (remove_selected 0 (three_frames\<lparr>current_index := 2\<rparr>)) = 0
   \<and> int (length (frames one_frame)) \<le> 1
   \<and> current_index (remove_selected 0 one_frame) = - 1
   \<and> remove_selected 1 one_frame = one_frame
   \<and> remove_selected (- 1) one_frame = one_frame"
proof -
  let ?s = "three_frames\<lparr>current_index := 2\<rparr>"
  have h: "(0::int) \<le> 0 \<and> 0 < int (length (frames ?s))" by (simp add: three_frames_def)
  have l: "length (frames ?s) = 3" by (simp add: three_frames_def)
  from remove_selected_cursor[of 0 ?s] h
  have a: "length (frames (remove_selected 0 ?s)) = length (frames ?s) - 1"
    and b: "\<forall>j < length (frames ?s) - 1.
            frames (remove_selected 0 ?s) ! j =
              (if int j < 0 then frames ?s ! j else frames ?s ! Suc j)"
    and c: "current_index (remove_selected 0 ?s) =
           (if length (frames ?s) = 1 then - 1
            else max 0 (min 0 (int (length (frames (remove_selected 0 ?s))) - 1)))"
    by blast+
  from a l have l2: "length (frames (remove_selected 0 ?s)) = 2" by simp
  from b l have "frames (remove_selected 0 ?s) ! 0 = frame_b" "frames (remove_selected 0 ?s) ! 1 = frame_c"
    by (simp_all add: three_frames_def)
  with l2 have fr: "frames (remove_selected 0 ?s) = [frame_b, frame_c]"
    by (simp add: list_eq_iff_nth_eq nth_Cons' less_Suc_eq numeral_2_eq_2)
  from c l l2 have cu: "current_index (remove_selected 0 ?s) = 0" by simp
  have h1: "(0::int) \<le> 0 \<and> 0 < int (length (frames one_frame))" "length (frames one_frame) = 1"
    by (simp_all add: one_frame_def three_frames_def)
  from remove_selected_cursor[of 0 one_frame] h1
  have e: "current_index (remove_selected 0 one_frame) = - 1" by simp
  from remove_selected_cursor[of 1 one_frame] h1(2)
  have o1: "remove_selected 1 one_frame = one_frame" by simp
  from remove_selected_cursor[of "- 1" one_frame]
  have o2: "remove_selected (- 1) one_frame = one_frame" by simp
  show ?thesis using h fr cu h1 e o1 o2 by simp
qed

text \<open>
  Three frames, the list selection on the first and the cursor (moved on by playback) on the
  third. Removing the first frame puts the cursor at 0, while the clamp of the cursor that held
  before the removal is 1.
\<close>

theorem remove_selected_old_cursor_counterexample:
  "(0::int) \<le> 0 \<and> 0 < int (length (frames (three_frames\<lparr>current_index := 2\<rparr>)))
   \<and> current_index (three_frames\<lparr>current_index := 2\<rparr>) = 2
   \<and> length (frames (remove_selected 0 (three_frames\<lparr>current_index := 2\<rparr>))) = 2
   \<and> max 0 (min (current_index (three_frames\<lparr>current_index := 2\<rparr>))
               (int (length (frames (remove_selected 0 (three_frames\<lparr>current_index := 2\<rparr>)))) - 1)) = 1
   \<and> current_index (remove_selected 0 (three_frames\<lparr>current_index := 2\<rparr>)) = 0"
  by (simp add: remove_selected_def three_frames_def mark_unsaved_def Let_def)

text \<open>
  C8. Changing the default duration to \<open>v\<close> sets \<open>default_duration_ms\<close> to \<open>v\<close>; the
  timeline keeps its length and order, every frame whose \<open>is_custom_duration\<close> is false gets
  \<open>duration_ms = v\<close> with its other fields as they were, and every frame whose
  \<open>is_custom_duration\<close> is true is left as it was.
\<close>

theorem default_duration_update:
  "default_duration_ms (on_default_duration_changed v s) = v
   \<and> length (frames (on_default_duration_changed v s)) = length (frames s)
   \<and> (\<forall>i < length (frames s).
        frames (on_default_duration_changed v s) ! i =
          (if is_custom_duration (frames s ! i) then frames s ! i
           else (frames s ! i)\<lparr>duration_ms := v\<rparr>))"
  by (simp add: on_default_duration_changed_def mark_unsaved_def)

theorem default_duration_update_witness:
  "default_duration_ms (on_default_duration_changed 70 three_frames) = 70
   \<and> (1::nat) < length (frames three_frames) \<and> is_custom_duration (frames three_frames ! 1)
   \<and> frames (on_default_duration_changed 70 three_frames) ! 1 = frame_b
   \<and> (2::nat) < length (frames three_frames) \<and> \<not> is_custom_duration (frames three_frames ! 2)
   \<and> frames (on_default_duration_changed 70 three_frames) ! 2 = frame_c\<lparr>duration_ms := 70\<rparr>"
proof -
  have h: "(1::nat) < length (frames three_frames)" "(2::nat) < length (frames three_frames)"
    "is_custom_duration (frames three_frames ! 1)" "\<not> is_custom_duration (frames three_frames ! 2)"
    "frames three_frames ! 1 = frame_b" "frames three_frames ! 2 = frame_c"
    by (simp_all add: three_frames_def frame_b_def frame_c_def)
  from default_duration_update[of 70 three_frames]
  have d: "default_duration_ms (on_default_duration_changed 70 three_frames) = 70"
    and a: "\<forall>i < length (frames three_frames).
        frames (on_default_duration_changed 70 three_frames) ! i =
          (if is_custom_duration (frames three_frames ! i) then frames three_frames ! i
           else (frames three_frames ! i)\<lparr>duration_ms := 70\<rparr>)"
    by blast+
  from a h(1) have "frames (on_default_duration_changed 70 three_frames) ! 1 =
          (if is_custom_duration (frames three_frames ! 1) then frames three_frames ! 1
           else (frames three_frames ! 1)\<lparr>duration_ms := 70\<rparr>)" by blast
  with h have b: "frames (on_default_duration_changed 70 three_frames) ! 1 = frame_b" by simp
  from a h(2) have "frames (on_default_duration_changed 70 three_frames) ! 2 =
          (if is_custom_duration (frames three_frames ! 2) then frames three_frames ! 2
           else (frames three_frames ! 2)\<lparr>duration_ms := 70\<rparr>)" by blast
  with h have c: "frames (on_default_duration_changed 70 three_frames) ! 2 = frame_c\<lparr>duration_ms := 70\<rparr>"
    by simp
  show ?thesis using d h b c by simp
qed

section \<open>Adding images\<close>

lemma start_playback_ok:
  assumes "frames s \<noteq> []" and "current_index s < int (length (frames s))"
  shows "start_playback s =
     Inr (s\<lparr>is_playing := True,
            play_timer := Some (max 10 (if 0 \<le> current_index s
                                        then duration_ms (frames s ! nat (current_index s))
                                        else default_duration_ms s))\<rparr>)"
  using assms by (simp add: start_playback_def Let_def getitem_in_range)

text \<open>
  C10. When the file dialog returns at least one file, playback is stopped and the cursor is
  not beyond the timeline, \<open>add_images\<close> returns normally with the files appended, the cursor
  moved from -1 to 0 (and otherwise kept), \<open>is_playing\<close> true and the timer started with
  \<open>max 10\<close> of the duration of the frame at the cursor.
\<close>

theorem add_images_starts_playback:
  assumes "files \<noteq> []" and "\<not> is_playing s"
    and "current_index s < int (length (frames s)) + int (length files)"
  shows "\<exists>s'. add_images w files s = Inr s' \<and> is_playing s'
      \<and> length (frames s') = length (frames s) + length files
      \<and> current_index s' = (if current_index s = - 1 then 0 else current_index s)
      \<and> play_timer s' =
          Some (max 10 (if 0 \<le> current_index s' then duration_ms (frames s' ! nat (current_index s'))
                        else default_duration_ms s))"
proof -
  define fs where "fs = frames s @
                    map (\<lambda>f. \<lparr>source_path = str_of_path w f, display_name = path_name w f,
                              duration_ms = default_duration_ms s, is_custom_duration = False,
                              is_checked = False\<rparr>) files"
  define s3 where "s3 = s\<lparr>frames := fs,
                          current_index := (if current_index s = - 1 then 0 else current_index s),
                          unsaved_changes := True\<rparr>"
  have ne: "frames s3 \<noteq> []" using assms(1) by (simp add: s3_def fs_def)
  have lt: "current_index s3 < int (length (frames s3))"
    using assms(1,3) by (cases files) (auto simp: s3_def fs_def)
  have "add_images w files s = start_playback s3"
    using assms(1,2) by (simp add: add_images_def Let_def mark_unsaved_def s3_def fs_def)
  then have eq: "add_images w files s =
      Inr (s3\<lparr>is_playing := True,
              play_timer := Some (max 10 (if 0 \<le> current_index s3
                                          then duration_ms (frames s3 ! nat (current_index s3))
                                          else default_duration_ms s3))\<rparr>)"
    using start_playback_ok[OF ne lt] by simp
  show ?thesis unfolding eq by (simp add: s3_def fs_def)
qed

theorem add_images_starts_playback_witness:
  "[''x.png''] \<noteq> [] \<and> \<not> is_playing (no_frames\<lparr>is_playing := False, play_timer := None\<rparr>)
   \<and> current_index (no_frames\<lparr>is_playing := False, play_timer := None\<rparr>)
        < int (length (frames (no_frames\<lparr>is_playing := False, play_timer := None\<rparr>)))
          + int (length [''x.png''])
   \<and> (\<exists>s'. add_images disk [''x.png''] (no_frames\<lparr>is_playing := False, play_timer := None\<rparr>) = Inr s'
         \<and> is_playing s' \<and> length (frames s') = 1 \<and> current_index s' = 0
         \<and> play_timer s' = Some 100)"
proof -
  let ?s = "no_frames\<lparr>is_playing := False, play_timer := None\<rparr>"
  have h: "[''x.png''] \<noteq> []" "\<not> is_playing ?s"
    "current_index ?s < int (length (frames ?s)) + int (length [''x.png''])"
    by (simp_all add: no_frames_def three_frames_def)
  from add_images_starts_playback[OF h, of disk] obtain s' where
    s': "add_images disk [''x.png''] ?s = Inr s'" "is_playing s'"
      "length (frames s') = length (frames ?s) + length [''x.png'']"
      "current_index s' = (if current_index ?s = - 1 then 0 else current_index ?s)"
      "play_timer s' =
          Some (max 10 (if 0 \<le> current_index s' then duration_ms (frames s' ! nat (current_index s'))
                        else default_duration_ms ?s))"
    by blast
  have ev: "add_images disk [''x.png''] ?s =
      Inr (?s\<lparr>frames := [\<lparr>source_path = ''x.png'', display_name = ''x.png'', duration_ms = 100,
                            is_custom_duration = False, is_checked = False\<rparr>],
              current_index := 0, unsaved_changes := True, is_playing := True,
              play_timer := Some 100\<rparr>)"
    by (simp add: add_images_def start_playback_def getitem_def mark_unsaved_def Let_def
        no_frames_def three_frames_def disk_def)
  from s'(1) ev have "play_timer s' = Some 100" by auto
  moreover from s'(3,4) have "length (frames s') = 1" "current_index s' = 0"
    by (simp_all add: no_frames_def three_frames_def)
  ultimately show ?thesis using h s'(1,2) by blast
qed

section \<open>Opening an animated GIF\<close>













section \<open>Saving the animated GIF\<close>

lemma surviving_pairs_Nil: "surviving_pairs w sz [] = []"
  by (simp add: surviving_pairs_def map_filter_simps)

lemma surviving_pairs_Cons:
  "surviving_pairs w sz (f # fs) =
     (case fst (load_frame_image w f (Some sz)) of
        None \<Rightarrow> surviving_pairs w sz fs
      | Some img \<Rightarrow> (img, duration_ms f) # surviving_pairs w sz fs)"
  by (simp add: surviving_pairs_def map_filter_simps split: option.splits)

lemma collect_images_pairs:
  "collect_images w sz fs (images, durations) =
     (images @ map fst (surviving_pairs w sz fs), durations @ map snd (surviving_pairs w sz fs))"
proof (induction fs arbitrary: images durations)
  case Nil
  then show ?case by (simp add: surviving_pairs_Nil)
next
  case (Cons f fs)
  show ?case
  proof (cases "load_frame_image w f (Some sz)")
    case (fields a b c)
    then show ?thesis
      by (cases a) (simp_all add: Cons.IH surviving_pairs_Cons)
  qed
qed

lemma load_at_size:
  "load_frame_image w f (Some sz) = (Some img, a, b) \<Longrightarrow>
     img_width img = fst sz \<and> img_height img = snd sz \<and> a = fst sz \<and> b = snd sz"
  by (auto simp: load_frame_image_def Let_def split: if_splits option.splits)

lemma surviving_pairs_size:
  "p \<in> set (surviving_pairs w sz fs) \<Longrightarrow> img_width (fst p) = fst sz \<and> img_height (fst p) = snd sz"
proof (induction fs)
  case Nil
  then show ?case by (simp add: surviving_pairs_Nil)
next
  case (Cons f fs)
  show ?case
  proof (cases "load_frame_image w f (Some sz)")
    case (fields a b c)
    show ?thesis
    proof (cases a)
      case None
      with fields Cons show ?thesis by (simp add: surviving_pairs_Cons)
    next
      case (Some img)
      with fields load_at_size[of w f sz img b c] Cons show ?thesis
        by (auto simp: surviving_pairs_Cons)
    qed
  qed
qed

lemma load_ignores_checked:
  "load_frame_image w (f\<lparr>is_checked := b\<rparr>) e = load_frame_image w f e"
  by (simp add: load_frame_image_def Let_def split: option.splits)

lemma surviving_pairs_ignore_checked:
  "surviving_pairs w sz (map (\<lambda>f. f\<lparr>is_checked := c f\<rparr>) fs) = surviving_pairs w sz fs"
  by (induction fs)
     (simp_all add: surviving_pairs_Nil surviving_pairs_Cons load_ignores_checked split: option.splits)

lemma surviving_pairs_durations:
  "map snd (surviving_pairs w sz fs) =
     map duration_ms (filter (\<lambda>f. fst (load_frame_image w f (Some sz)) \<noteq> None) fs)"
  by (induction fs) (auto simp: surviving_pairs_Nil surviving_pairs_Cons split: option.splits)

lemma surviving_pairs_empty:
  "(surviving_pairs w sz fs = []) = (\<forall>f\<in>set fs. fst (load_frame_image w f (Some sz)) = None)"
  by (induction fs) (auto simp: surviving_pairs_Nil surviving_pairs_Cons split: option.splits)

lemma save_first_ok:
  assumes "frames s = f0 # rest" and "load_frame_image w f0 None = (Some img0, wd, ht)"
  shows "save_gif_to_path w path s =
     (case surviving_pairs w (wd, ht) (frames s) of
        [] \<Rightarrow> (NoFramesCouldBeLoaded, s)
      | p # ps \<Rightarrow>
          (let call = \<lparr>gif_path = path, gif_first = fst p, gif_append_images = map fst ps,
                       gif_duration = map snd (p # ps), gif_loop = 0, gif_disposal = 2\<rparr>
           in if gif_save_raises w call then (ErrorSavingGif call, s)
              else (SavedGif call, s\<lparr>unsaved_changes := False\<rparr>)))"
  using assms
  by (cases "surviving_pairs w (wd, ht) (f0 # rest)")
     (simp_all add: save_gif_to_path_def collect_images_pairs Let_def)

text \<open>
  C5. When the first frame loads at its natural size \<open>(wd, ht)\<close>, every frame of the
  timeline, whatever its \<open>is_checked\<close>, is loaded at that size; the frames whose load fails
  are left out together with their durations, so that the images and durations stay paired by
  position: the surviving images all have the size \<open>(wd, ht)\<close> and the durations are the
  \<open>duration_ms\<close> of exactly the frames that loaded, in order. When a pair survives, the
  encoder is called once with the first image, the other images, these durations,
  \<open>loop = 0\<close> and \<open>disposal = 2\<close>.
\<close>

theorem save_gif_pairs:
  assumes "frames s = f0 # rest" and "load_frame_image w f0 None = (Some img0, wd, ht)"
  shows "(\<forall>p\<in>set (surviving_pairs w (wd, ht) (frames s)). img_width (fst p) = wd \<and> img_height (fst p) = ht)
     \<and> map snd (surviving_pairs w (wd, ht) (frames s)) =
         map duration_ms (filter (\<lambda>f. fst (load_frame_image w f (Some (wd, ht))) \<noteq> None) (frames s))
     \<and> surviving_pairs w (wd, ht) (map (\<lambda>f. f\<lparr>is_checked := c f\<rparr>) (frames s)) =
         surviving_pairs w (wd, ht) (frames s)
     \<and> (case surviving_pairs w (wd, ht) (frames s) of
          [] \<Rightarrow> fst (save_gif_to_path w path s) = NoFramesCouldBeLoaded
        | p # ps \<Rightarrow>
            fst (save_gif_to_path w path s) \<in>
              {SavedGif \<lparr>gif_path = path, gif_first = fst p, gif_append_images = map fst ps,
                         gif_duration = map snd (p # ps), gif_loop = 0, gif_disposal = 2\<rparr>,
               ErrorSavingGif \<lparr>gif_path = path, gif_first = fst p, gif_append_images = map fst ps,
                         gif_duration = map snd (p # ps), gif_loop = 0, gif_disposal = 2\<rparr>})"
proof -
  have a: "\<forall>p\<in>set (surviving_pairs w (wd, ht) (frames s)). img_width (fst p) = wd \<and> img_height (fst p) = ht"
    using surviving_pairs_size[of _ w "(wd, ht)" "frames s"] by simp
  have d: "(case surviving_pairs w (wd, ht) (frames s) of
          [] \<Rightarrow> fst (save_gif_to_path w path s) = NoFramesCouldBeLoaded
        | p # ps \<Rightarrow>
            fst (save_gif_to_path w path s) \<in>
              {SavedGif \<lparr>gif_path = path, gif_first = fst p, gif_append_images = map fst ps,
                         gif_duration = map snd (p # ps), gif_loop = 0, gif_disposal = 2\<rparr>,
               ErrorSavingGif \<lparr>gif_path = path, gif_first = fst p, gif_append_images = map fst ps,
                         gif_duration = map snd (p # ps), gif_loop = 0, gif_disposal = 2\<rparr>})"
    unfolding save_first_ok[OF assms] by (simp add: Let_def split: list.splits)
  show ?thesis
    using a d surviving_pairs_durations[of w "(wd, ht)" "frames s"]
      surviving_pairs_ignore_checked[of w "(wd, ht)" c "frames s"]
    by blast
qed

text \<open>
  Four frames of which the second is missing and the third cannot be resized: the first and
  the fourth are encoded, with their own 100 ms and 250 ms.
\<close>

theorem save_gif_pairs_witness:
  "frames mixed_frames = frame_a # [frame_gone, frame_fragile, frame_b]
   \<and> load_frame_image disk frame_a None =
       (Some \<lparr>img_source = ''a.png'', img_width = 4, img_height = 3\<rparr>, 4, 3)
   \<and> surviving_pairs disk (4, 3) (frames mixed_frames) =
       [(\<lparr>img_source = ''a.png'', img_width = 4, img_height = 3\<rparr>, 100),
        (\<lparr>img_source = ''b.png'', img_width = 4, img_height = 3\<rparr>, 250)]
   \<and> fst (save_gif_to_path disk ''out.gif'' mixed_frames) \<in>
       {SavedGif \<lparr>gif_path = ''out.gif'',
                  gif_first = \<lparr>img_source = ''a.png'', img_width = 4, img_height = 3\<rparr>,
                  gif_append_images = [\<lparr>img_source = ''b.png'', img_width = 4, img_height = 3\<rparr>],
                  gif_duration = [100, 250], gif_loop = 0, gif_disposal = 2\<rparr>,
        ErrorSavingGif \<lparr>gif_path = ''out.gif'',
                  gif_first = \<lparr>img_source = ''a.png'', img_width = 4, img_height = 3\<rparr>,
                  gif_append_images = [\<lparr>img_source = ''b.png'', img_width = 4, img_height = 3\<rparr>],
                  gif_duration = [100, 250], gif_loop = 0, gif_disposal = 2\<rparr>}"
proof -
  have h1: "frames mixed_frames = frame_a # [frame_gone, frame_fragile, frame_b]"
    by (simp add: mixed_frames_def three_frames_def)
  have h2: "load_frame_image disk frame_a None =
       (Some \<lparr>img_source = ''a.png'', img_width = 4, img_height = 3\<rparr>, 4, 3)"
    by (simp add: load_frame_image_def disk_def frame_a_def str_lower_def lower_char_def)
  have sp: "surviving_pairs disk (4, 3) (frames mixed_frames) =
       [(\<lparr>img_source = ''a.png'', img_width = 4, img_height = 3\<rparr>, 100),
        (\<lparr>img_source = ''b.png'', img_width = 4, img_height = 3\<rparr>, 250)]"
    unfolding h1
    by (simp add: surviving_pairs_Cons surviving_pairs_Nil load_frame_image_def disk_def
        frame_a_def frame_b_def frame_gone_def frame_fragile_def str_lower_def lower_char_def)
  note t = save_gif_pairs[OF h1 h2, of "\<lambda>f. True" "''out.gif''"]
  note d = t[THEN conjunct2, THEN conjunct2, THEN conjunct2]
  have r: "fst (save_gif_to_path disk ''out.gif'' mixed_frames) \<in>
       {SavedGif \<lparr>gif_path = ''out.gif'',
                  gif_first = \<lparr>img_source = ''a.png'', img_width = 4, img_height = 3\<rparr>,
                  gif_append_images = [\<lparr>img_source = ''b.png'', img_width = 4, img_height = 3\<rparr>],
                  gif_duration = [100, 250], gif_loop = 0, gif_disposal = 2\<rparr>,
        ErrorSavingGif \<lparr>gif_path = ''out.gif'',
                  gif_first = \<lparr>img_source = ''a.png'', img_width = 4, img_height = 3\<rparr>,
                  gif_append_images = [\<lparr>img_source = ''b.png'', img_width = 4, img_height = 3\<rparr>],
                  gif_duration = [100, 250], gif_loop = 0, gif_disposal = 2\<rparr>}"
    using d unfolding sp by simp
  show ?thesis using h1 h2 sp r by (intro conjI)
qed

text \<open>
  C6. Saving ends before the encoder is called, with the window unchanged, in exactly three
  cases: the timeline has no frames (\<open>NoFramesToSave\<close>); the first frame does not load at its
  natural size (\<open>CouldNotLoadFirstFrame\<close>); the first frame loads at its natural size, which
  gives the canonical size, and then no frame loads at the canonical size
  (\<open>NoFramesCouldBeLoaded\<close>). In every other case the encoder is called.
\<close>

theorem save_gif_failures:
  "(frames s = [] \<longrightarrow> save_gif_to_path w path s = (NoFramesToSave, s))
   \<and> (frames s \<noteq> [] \<and> fst (load_frame_image w (hd (frames s)) None) = None \<longrightarrow>
        save_gif_to_path w path s = (CouldNotLoadFirstFrame, s))
   \<and> (frames s \<noteq> [] \<and> load_frame_image w (hd (frames s)) None = (Some img, wd, ht)
        \<and> (\<forall>f\<in>set (frames s). fst (load_frame_image w f (Some (wd, ht))) = None) \<longrightarrow>
        save_gif_to_path w path s = (NoFramesCouldBeLoaded, s))
   \<and> (frames s \<noteq> [] \<and> load_frame_image w (hd (frames s)) None = (Some img, wd, ht)
        \<and> (\<exists>f\<in>set (frames s). fst (load_frame_image w f (Some (wd, ht))) \<noteq> None) \<longrightarrow>
        (\<exists>call. fst (save_gif_to_path w path s) = SavedGif call
               \<or> fst (save_gif_to_path w path s) = ErrorSavingGif call))"
proof (intro conjI impI)
  assume "frames s = []"
  then show "save_gif_to_path w path s = (NoFramesToSave, s)"
    by (simp add: save_gif_to_path_def)
next
  assume h: "frames s \<noteq> [] \<and> fst (load_frame_image w (hd (frames s)) None) = None"
  then obtain f0 rest where fr: "frames s = f0 # rest" by (cases "frames s") auto
  with h show "save_gif_to_path w path s = (CouldNotLoadFirstFrame, s)"
    by (cases "load_frame_image w f0 None") (simp add: save_gif_to_path_def)
next
  assume h: "frames s \<noteq> [] \<and> load_frame_image w (hd (frames s)) None = (Some img, wd, ht)
        \<and> (\<forall>f\<in>set (frames s). fst (load_frame_image w f (Some (wd, ht))) = None)"
  then obtain f0 rest where fr: "frames s = f0 # rest" by (cases "frames s") auto
  from h fr have l: "load_frame_image w f0 None = (Some img, wd, ht)" by simp
  from h have "surviving_pairs w (wd, ht) (frames s) = []" by (simp add: surviving_pairs_empty)
  then show "save_gif_to_path w path s = (NoFramesCouldBeLoaded, s)"
    by (simp add: save_first_ok[OF fr l])
next
  assume h: "frames s \<noteq> [] \<and> load_frame_image w (hd (frames s)) None = (Some img, wd, ht)
        \<and> (\<exists>f\<in>set (frames s). fst (load_frame_image w f (Some (wd, ht))) \<noteq> None)"
  then obtain f0 rest where fr: "frames s = f0 # rest" by (cases "frames s") auto
  from h fr have l: "load_frame_image w f0 None = (Some img, wd, ht)" by simp
  from h have "surviving_pairs w (wd, ht) (frames s) \<noteq> []" by (simp add: surviving_pairs_empty)
  then obtain p ps where "surviving_pairs w (wd, ht) (frames s) = p # ps"
    by (cases "surviving_pairs w (wd, ht) (frames s)") auto
  then show "\<exists>call. fst (save_gif_to_path w path s) = SavedGif call
               \<or> fst (save_gif_to_path w path s) = ErrorSavingGif call"
    by (simp add: save_first_ok[OF fr l] Let_def)
qed

theorem save_gif_failures_witness:
  "frames no_frames = []
   \<and> save_gif_to_path disk ''out.gif'' no_frames = (NoFramesToSave, no_frames)
   \<and> fst (load_frame_image disk (hd (frames gone_first)) None) = None
   \<and> save_gif_to_path disk ''out.gif'' gone_first = (CouldNotLoadFirstFrame, gone_first)
   \<and> load_frame_image disk (hd (frames fragile_only)) None =
       (Some \<lparr>img_source = ''fragile.png'', img_width = 4, img_height = 3\<rparr>, 4, 3)
   \<and> fst (load_frame_image disk frame_fragile (Some (4, 3))) = None
   \<and> save_gif_to_path disk ''out.gif'' fragile_only = (NoFramesCouldBeLoaded, fragile_only)
   \<and> fst (load_frame_image disk frame_a (Some (4, 3))) =
       Some \<lparr>img_source = ''a.png'', img_width = 4, img_height = 3\<rparr>
   \<and> (\<exists>call. fst (save_gif_to_path disk ''out.gif'' mixed_frames) = SavedGif call
             \<or> fst (save_gif_to_path disk ''out.gif'' mixed_frames) = ErrorSavingGif call)"
proof -
  have e: "frames no_frames = []" by (simp add: no_frames_def)
  have g: "frames gone_first \<noteq> [] \<and> fst (load_frame_image disk (hd (frames gone_first)) None) = None"
    by (simp add: gone_first_def three_frames_def frame_gone_def load_frame_image_def disk_def)
  have f1: "load_frame_image disk (hd (frames fragile_only)) None =
       (Some \<lparr>img_source = ''fragile.png'', img_width = 4, img_height = 3\<rparr>, 4, 3)"
    by (simp add: fragile_only_def three_frames_def frame_fragile_def load_frame_image_def disk_def
        str_lower_def lower_char_def)
  have f2: "fst (load_frame_image disk frame_fragile (Some (4, 3))) = None"
    by (simp add: frame_fragile_def load_frame_image_def disk_def str_lower_def lower_char_def)
  have f3: "frames fragile_only \<noteq> []
      \<and> (\<forall>f\<in>set (frames fragile_only). fst (load_frame_image disk f (Some (4, 3))) = None)"
    using f2 by (simp add: fragile_only_def three_frames_def)
  have m1: "load_frame_image disk (hd (frames mixed_frames)) None =
       (Some \<lparr>img_source = ''a.png'', img_width = 4, img_height = 3\<rparr>, 4, 3)"
    by (simp add: mixed_frames_def three_frames_def frame_a_def load_frame_image_def disk_def
        str_lower_def lower_char_def)
  have m2: "fst (load_frame_image disk frame_a (Some (4, 3))) =
       Some \<lparr>img_source = ''a.png'', img_width = 4, img_height = 3\<rparr>"
    by (simp add: frame_a_def load_frame_image_def disk_def str_lower_def lower_char_def)
  have m3: "frames mixed_frames \<noteq> []
      \<and> (\<exists>f\<in>set (frames mixed_frames). fst (load_frame_image disk f (Some (4, 3))) \<noteq> None)"
    using m2 by (simp add: mixed_frames_def three_frames_def)
  from save_gif_failures[of no_frames disk "''out.gif''"] e
  have r1: "save_gif_to_path disk ''out.gif'' no_frames = (NoFramesToSave, no_frames)" by blast
  from save_gif_failures[of gone_first disk "''out.gif''"] g
  have r2: "save_gif_to_path disk ''out.gif'' gone_first = (CouldNotLoadFirstFrame, gone_first)"
    by blast
  from save_gif_failures[of fragile_only disk "''out.gif''"
      "\<lparr>img_source = ''fragile.png'', img_width = 4, img_height = 3\<rparr>" 4 3] f1 f3
  have r3: "save_gif_to_path disk ''out.gif'' fragile_only = (NoFramesCouldBeLoaded, fragile_only)"
    by blast
  from save_gif_failures[of mixed_frames disk "''out.gif''"
      "\<lparr>img_source = ''a.png'', img_width = 4, img_height = 3\<rparr>" 4 3] m1 m3
  have r4: "\<exists>call. fst (save_gif_to_path disk ''out.gif'' mixed_frames) = SavedGif call
             \<or> fst (save_gif_to_path disk ''out.gif'' mixed_frames) = ErrorSavingGif call"
    by blast
  show ?thesis using e g r1 r2 f1 f2 r3 m2 r4 by blast
qed

section \<open>Exporting the checked frames\<close>

lemma export_frames_length:
  "export_frames w d fs = Inr written \<Longrightarrow> length written \<le> length fs"
proof (induction fs arbitrary: written)
  case Nil
  then show ?case by simp
next
  case (Cons f fs)
  then show ?case
    by (fastforce simp: Let_def split: if_splits sum.splits)
qed

lemma export_checked_count:
  "export_checked w d s = Inr (Exported written n) \<Longrightarrow>
     n = length (filter is_checked (frames s)) \<and> length written \<le> n"
  by (auto simp: export_checked_def Let_def split: if_splits sum.splits dest: export_frames_length)

lemma export_none_checked:
  "filter is_checked (frames s) = [] \<Longrightarrow> export_checked w d s = Inr NoCheckedFrames"
  by (simp add: export_checked_def)

text \<open>
  C7. Of three frames the second and the third are checked, and the file of the third is
  missing. The export writes the one file of the second frame and reports 2, the number of
  checked frames, where one frame was written.
\<close>

theorem export_checked_reports_checked_count:
  "export_checked disk ''out'' two_checked = Inr (Exported [''out/b.png''] 2)"
  by (simp add: export_checked_def two_checked_def three_frames_def frame_a_def frame_b_def
      frame_gone_def disk_def Let_def str_lower_def lower_char_def endswith_def)

end

